theory Spec2Isabelle
  imports Complex_Main
begin

section \<open>Values and errors\<close>

text \<open>
  Monetary amounts are Python numbers. They are modelled as rationals, which every
  finite float is. Unless said otherwise the comparisons, sums, differences, products
  and quotients of the source are the exact arithmetic of \<^typ>\<open>rat\<close>; the rounding of
  binary floating point is written out where a property depends on it (the budget
  calculator on doubles, below). A Python dictionary built by a literal is a map from its string keys to values
  that are either a number or a string.
\<close>

datatype pyval = PNum rat | PStr string

type_synonym pydict = "string \<rightharpoonup> pyval"

datatype py_error = ZeroDivisionError

section \<open>tools/impact\_simulator.py\<close>

text \<open>
  \<open>ImpactSimulator.assess_transaction\<close>. The difference is taken first; a negative
  difference returns the DANGER dictionary (keys status, reason, remaining_balance,
  impact_on_savings). Otherwise the level is SAFE, raised to CAUTION when the cost
  exceeds half of the balance, and the returned dictionary holds the quotient
  \<open>(item_cost / current_discretionary_balance) * 100\<close>; Python raises ZeroDivisionError
  when the divisor is zero, which is the \<open>Inl\<close> branch here.
\<close>

definition assess_transaction :: "rat \<Rightarrow> rat \<Rightarrow> rat \<Rightarrow> rat \<Rightarrow> py_error + pydict" where
  "assess_transaction current_discretionary_balance current_savings savings_goal item_cost =
     (let remaining_balance = current_discretionary_balance - item_cost in
      if remaining_balance < 0 then
        Inr [''status'' \<mapsto> PStr ''DANGER'',
             ''reason'' \<mapsto> PStr ''Insufficient funds. This purchase puts you in debt.'',
             ''remaining_balance'' \<mapsto> PNum remaining_balance,
             ''impact_on_savings'' \<mapsto> PStr ''N/A'']
      else
        let risk_level = ''SAFE'';
            advice = ''You have enough budget for this.'';
            (risk_level, advice) =
              (if item_cost > current_discretionary_balance * 0.5
               then (''CAUTION'',
                     ''This uses more than 50% of your remaining monthly 'fun money'.'')
               else (risk_level, advice))
        in if current_discretionary_balance = 0 then Inl ZeroDivisionError
           else
             Inr [''status'' \<mapsto> PStr risk_level,
                  ''reason'' \<mapsto> PStr advice,
                  ''remaining_balance'' \<mapsto> PNum remaining_balance,
                  ''cost_percentage_of_free_cash'' \<mapsto>
                      PNum ((item_cost / current_discretionary_balance) * 100)])"

text \<open>Reading a key of a result; an error has none.\<close>

definition field_of :: "string \<Rightarrow> py_error + pydict \<Rightarrow> pyval option" where
  "field_of k r = (case r of Inl e \<Rightarrow> None | Inr d \<Rightarrow> d k)"

section \<open>tools/budget\_calculator.py\<close>

definition calculate_50_30_20 :: "rat \<Rightarrow> pydict" where
  "calculate_50_30_20 income =
     [''needs'' \<mapsto> PNum (income * 0.50),
      ''wants'' \<mapsto> PNum (income * 0.30),
      ''savings'' \<mapsto> PNum (income * 0.20)]"

definition calculate_remaining_after_fixed :: "rat \<Rightarrow> rat \<Rightarrow> pydict" where
  "calculate_remaining_after_fixed income fixed_expenses_total =
     (let discretionary = income - fixed_expenses_total in
      if discretionary < 0 then
        [''status'' \<mapsto> PStr ''deficit'',
         ''discretionary'' \<mapsto> PNum 0,
         ''needs_gap'' \<mapsto> PNum \<bar>discretionary\<bar>]
      else
        [''status'' \<mapsto> PStr ''surplus'',
         ''needs_total'' \<mapsto> PNum fixed_expenses_total,
         ''discretionary_total'' \<mapsto> PNum discretionary,
         ''recommended_savings'' \<mapsto> PNum (discretionary * 0.40),
         ''recommended_wants'' \<mapsto> PNum (discretionary * 0.60)])"

text \<open>
  The definitions above compute in exact arithmetic. Python's \<open>float\<close> is IEEE 754
  binary64: every operation returns the representable number nearest to the exact
  result, ties going to the even significand. The comparisons of the source and the
  equalities between the numbers it returns do not depend on that rounding, but the sum
  of the two recommended shares does, so \<open>calculate_remaining_after_fixed\<close> is given a
  second time with the rounding of each float operation written out.

  A finite double is a rational \<open>m * 2 ^ k / 2 ^ 1074\<close> with \<open>\<bar>m\<bar> < 2 ^ 53\<close> and
  \<open>k \<le> 2045\<close>. \<open>ulp x\<close> is the spacing of the doubles around \<open>x\<close>: the largest
  \<open>2 ^ k / 2 ^ 1074\<close> with \<open>2 ^ 52\<close> times it at most \<open>\<bar>x\<bar>\<close>, and \<open>1 / 2 ^ 1074\<close> in
  the subnormal range. \<open>round_double\<close> rounds to the nearest multiple of it, half to
  even; a result beyond the largest finite double is an infinity, for which \<open>None\<close>
  stands.
\<close>

fun ulp_search :: "nat \<Rightarrow> rat \<Rightarrow> rat" where
  "ulp_search 0 x = 1 / 2 ^ 1074"
| "ulp_search (Suc n) x =
     (if 2 ^ 52 * (2 ^ Suc n / 2 ^ 1074) \<le> \<bar>x\<bar> then 2 ^ Suc n / 2 ^ 1074
      else ulp_search n x)"

definition ulp :: "rat \<Rightarrow> rat" where
  "ulp x = ulp_search 2045 x"

definition round_half_even :: "rat \<Rightarrow> int" where
  "round_half_even y =
     (let f = \<lfloor>y\<rfloor>; r = y - of_int f
      in if r < 1 / 2 then f else if 1 / 2 < r then f + 1 else if even f then f else f + 1)"

definition max_double :: rat where
  "max_double = (2 ^ 53 - 1) * 2 ^ 971"

definition round_nearest :: "rat \<Rightarrow> rat" where
  "round_nearest x = of_int (round_half_even (x / ulp x)) * ulp x"

definition round_double :: "rat \<Rightarrow> rat option" where
  "round_double x =
     (let r = round_nearest x in if \<bar>r\<bar> \<le> max_double then Some r else None)"

text \<open>
  \<open>calculate_remaining_after_fixed\<close> on doubles: the difference, the two literals
  \<open>0.40\<close> and \<open>0.60\<close> and the two products are each rounded.
\<close>

definition calculate_remaining_after_fixed_double :: "rat \<Rightarrow> rat \<Rightarrow> pydict option" where
  "calculate_remaining_after_fixed_double income fixed_expenses_total =
     Option.bind (round_double (income - fixed_expenses_total)) (\<lambda>discretionary.
       if discretionary < 0 then
         Some [''status'' \<mapsto> PStr ''deficit'',
               ''discretionary'' \<mapsto> PNum 0,
               ''needs_gap'' \<mapsto> PNum \<bar>discretionary\<bar>]
       else
         Option.bind (round_double 0.40) (\<lambda>c40.
         Option.bind (round_double (discretionary * c40)) (\<lambda>savings.
         Option.bind (round_double 0.60) (\<lambda>c60.
         Option.bind (round_double (discretionary * c60)) (\<lambda>wants.
           Some [''status'' \<mapsto> PStr ''surplus'',
                 ''needs_total'' \<mapsto> PNum fixed_expenses_total,
                 ''discretionary_total'' \<mapsto> PNum discretionary,
                 ''recommended_savings'' \<mapsto> PNum savings,
                 ''recommended_wants'' \<mapsto> PNum wants])))))"

section \<open>memory/storage.py\<close>

text \<open>
  The persisted document. Its shape is the one \<open>_initialize_db\<close> writes and the
  comments of the source give: a profile with three keys, a list of fixed expenses
  \<open>{name, amount}\<close>, a list of transactions \<open>{date, description, amount, category,
  type}\<close> and a budget plan. Every operation of \<open>StorageEngine\<close> loads the whole
  document, changes it and saves it, so an operation is a function from the document
  to the document.
\<close>

record user_profile =
  monthly_income :: rat
  savings_goal :: rat
  currency :: string

record fixed_expense =
  name :: string
  amount :: rat

record transaction =
  date :: string
  description :: string
  tx_amount :: rat
  category :: string
  tx_type :: string

record document =
  profile :: user_profile
  fixed_expenses :: "fixed_expense list"
  transactions :: "transaction list"
  budget_plan :: pydict

definition initial_data :: document where
  "initial_data =
     \<lparr>profile = \<lparr>monthly_income = 0, savings_goal = 0,
                  currency = [CHR 0xE2, CHR 0x82, CHR 0xB9]\<rparr>,
      fixed_expenses = [],
      transactions = [],
      budget_plan = Map.empty\<rparr>"

definition update_user_profile :: "rat \<Rightarrow> rat \<Rightarrow> document \<Rightarrow> document" where
  "update_user_profile income goal data =
     data\<lparr>profile := (profile data)\<lparr>monthly_income := income, savings_goal := goal\<rparr>\<rparr>"

definition get_user_profile :: "document \<Rightarrow> user_profile" where
  "get_user_profile data = profile data"

definition add_fixed_expense :: "string \<Rightarrow> rat \<Rightarrow> document \<Rightarrow> document" where
  "add_fixed_expense n a data =
     data\<lparr>fixed_expenses :=
            filter (\<lambda>e. name e \<noteq> n) (fixed_expenses data) @ [\<lparr>name = n, amount = a\<rparr>]\<rparr>"

definition get_fixed_expenses :: "document \<Rightarrow> fixed_expense list" where
  "get_fixed_expenses data = fixed_expenses data"

definition log_transaction :: "transaction \<Rightarrow> document \<Rightarrow> document" where
  "log_transaction t data = data\<lparr>transactions := transactions data @ [t]\<rparr>"

definition get_transactions :: "document \<Rightarrow> transaction list" where
  "get_transactions data = transactions data"

definition save_budget_plan :: "pydict \<Rightarrow> document \<Rightarrow> document" where
  "save_budget_plan plan data = data\<lparr>budget_plan := plan\<rparr>"

definition get_budget_plan :: "document \<Rightarrow> pydict" where
  "get_budget_plan data = budget_plan data"

section \<open>agents/state\_agent.py\<close>

text \<open>
  \<open>FinancialStateAgent\<close> wraps the storage engine. The time stamp that
  \<open>log_transaction\<close> reads from the clock is a parameter of the model.
\<close>

definition get_total_fixed_expenses :: "document \<Rightarrow> rat" where
  "get_total_fixed_expenses data = sum_list (map amount (get_fixed_expenses data))"

definition agent_log_transaction ::
    "string \<Rightarrow> string \<Rightarrow> rat \<Rightarrow> string \<Rightarrow> document \<Rightarrow> document" where
  "agent_log_transaction now item_name a cat data =
     log_transaction
       \<lparr>date = now, description = item_name, tx_amount = a, category = cat,
        tx_type = ''expense''\<rparr> data"

text \<open>
  The dictionary \<open>get_todays_state\<close> returns always has the same five numeric keys;
  it is a record here (the key \<open>savings_goal\<close> is the field \<open>snap_savings_goal\<close>).
\<close>

record snapshot =
  income :: rat
  total_fixed_expenses :: rat
  variable_expenses :: rat
  snap_savings_goal :: rat
  free_cash_flow :: rat

definition get_todays_state :: "document \<Rightarrow> snapshot" where
  "get_todays_state data =
     (let prof = get_user_profile data;
          fixed = get_total_fixed_expenses data;
          txs = get_transactions data;
          variable_spend =
            sum_list (map tx_amount (filter (\<lambda>t. tx_type t = ''expense'') txs))
      in \<lparr>income = monthly_income prof,
          total_fixed_expenses = fixed,
          variable_expenses = variable_spend,
          snap_savings_goal = savings_goal prof,
          free_cash_flow = monthly_income prof - fixed - variable_spend\<rparr>)"

text \<open>
  The public operations of \<open>FinancialStateAgent\<close> as a datatype, and the effect of
  one of them and of a sequence of them on the document. The reading operations
  (\<open>get_profile\<close>, \<open>get_total_fixed_expenses\<close>, \<open>get_todays_state\<close>) leave the
  document as it is.
\<close>

datatype agent_op =
    UpdateProfile rat rat
  | AddFixedExpense string rat
  | LogTransaction string string rat string
  | GetProfile
  | GetTotalFixedExpenses
  | GetTodaysState

fun agent_step :: "agent_op \<Rightarrow> document \<Rightarrow> document" where
  "agent_step (UpdateProfile i g) data = update_user_profile i g data"
| "agent_step (AddFixedExpense n a) data = add_fixed_expense n a data"
| "agent_step (LogTransaction now item a cat) data = agent_log_transaction now item a cat data"
| "agent_step GetProfile data = data"
| "agent_step GetTotalFixedExpenses data = data"
| "agent_step GetTodaysState data = data"

fun agent_run :: "agent_op list \<Rightarrow> document \<Rightarrow> document" where
  "agent_run [] data = data"
| "agent_run (op # ops) data = agent_run ops (agent_step op data)"

section \<open>agents/purchase\_agent.py\<close>

definition analyze_purchase :: "string \<Rightarrow> rat \<Rightarrow> document \<Rightarrow> py_error + pydict" where
  "analyze_purchase item_name cost data =
     (let state = get_todays_state data;
          discretionary_income = free_cash_flow state;
          goal = snap_savings_goal state
      in case assess_transaction discretionary_income 0 goal cost of
           Inl e \<Rightarrow> Inl e
         | Inr assessment \<Rightarrow>
             Inr (assessment(''item'' \<mapsto> PStr item_name, ''cost'' \<mapsto> PNum cost)))"

section \<open>Helper lemmas\<close>

lemma sum_list_filter_if:
  "sum_list (map f (filter P xs)) = (\<Sum>x\<leftarrow>xs. if P x then f x else (0::rat))"
  by (induction xs) simp_all

lemma distinct_names_add:
  "distinct (map name xs) \<Longrightarrow>
   distinct (map name (filter (\<lambda>e. name e \<noteq> n) xs @ [\<lparr>name = n, amount = a\<rparr>]))"
  by (induction xs) auto

lemma filter_name_add:
  "filter (\<lambda>e. name e = n) (filter (\<lambda>e. name e \<noteq> n) xs @ [\<lparr>name = n, amount = a\<rparr>])
     = [\<lparr>name = n, amount = a\<rparr>]"
  by (induction xs) auto

lemma fixed_expenses_add:
  "fixed_expenses (add_fixed_expense n a data)
     = filter (\<lambda>e. name e \<noteq> n) (fixed_expenses data) @ [\<lparr>name = n, amount = a\<rparr>]"
  by (simp add: add_fixed_expense_def)

lemma agent_step_expense:
  "list_all (\<lambda>t. tx_type t = ''expense'') (transactions data) \<Longrightarrow>
   list_all (\<lambda>t. tx_type t = ''expense'') (transactions (agent_step op data))"
  by (cases op)
     (simp_all add: update_user_profile_def add_fixed_expense_def agent_log_transaction_def
        log_transaction_def)

lemma agent_run_expense:
  "list_all (\<lambda>t. tx_type t = ''expense'') (transactions data) \<Longrightarrow>
   list_all (\<lambda>t. tx_type t = ''expense'') (transactions (agent_run ops data))"
proof (induction ops arbitrary: data)
  case Nil
  then show ?case by simp
next
  case (Cons op ops)
  from Cons.prems have "list_all (\<lambda>t. tx_type t = ''expense'') (transactions (agent_step op data))"
    by (rule agent_step_expense)
  then show ?case by (simp add: Cons.IH)
qed

lemma agent_step_other:
  "filter (\<lambda>t. tx_type t \<noteq> ''expense'') (transactions (agent_step op data))
     = filter (\<lambda>t. tx_type t \<noteq> ''expense'') (transactions data)"
  by (cases op)
     (simp_all add: update_user_profile_def add_fixed_expense_def agent_log_transaction_def
        log_transaction_def)

lemma agent_run_other:
  "filter (\<lambda>t. tx_type t \<noteq> ''expense'') (transactions (agent_run ops data))
     = filter (\<lambda>t. tx_type t \<noteq> ''expense'') (transactions data)"
  by (induction ops arbitrary: data) (simp_all add: agent_step_other)

text \<open>Rounding to binary64.\<close>

lemma ulp_search_pos: "0 < ulp_search n x"
  by (induction n) simp_all

lemma ulp_search_small: "ulp_search n x = 1 / 2 ^ 1074 \<or> 2 ^ 52 * ulp_search n x \<le> \<bar>x\<bar>"
  by (induction n) simp_all

lemma ulp_search_form: "\<exists>k\<le>n. ulp_search n x = 2 ^ k / 2 ^ 1074"
proof (induction n)
  case 0
  then show ?case by simp
next
  case (Suc n)
  show ?case
  proof (cases "2 ^ 52 * (2 ^ Suc n / 2 ^ 1074) \<le> \<bar>x\<bar>")
    case True
    then have "ulp_search (Suc n) x = 2 ^ Suc n / 2 ^ 1074" by simp
    then show ?thesis by blast
  next
    case False
    then have "ulp_search (Suc n) x = ulp_search n x" by simp
    with Suc obtain k where "k \<le> n" "ulp_search (Suc n) x = 2 ^ k / 2 ^ 1074" by auto
    then show ?thesis using le_Suc_eq by blast
  qed
qed

lemma ulp_search_eq:
  assumes "k \<le> n" and "2 ^ 52 * (2 ^ k / 2 ^ 1074) \<le> \<bar>x\<bar>"
    and "\<bar>x\<bar> < 2 ^ 53 * (2 ^ k / 2 ^ 1074)"
  shows "ulp_search n x = 2 ^ k / 2 ^ 1074"
  using assms
proof (induction n)
  case 0
  then show ?case by simp
next
  case (Suc n)
  show ?case
  proof (cases "k = Suc n")
    case True
    with Suc.prems show ?thesis by simp
  next
    case False
    with Suc.prems have kn: "k \<le> n" by simp
    then have "(2::rat) ^ Suc k \<le> 2 ^ Suc n" by simp
    then have "(2::rat) ^ 53 * (2 ^ k / 2 ^ 1074) \<le> 2 ^ 52 * (2 ^ Suc n / 2 ^ 1074)"
      by (simp add: field_simps)
    with Suc.prems(3) have "\<not> 2 ^ 52 * (2 ^ Suc n / 2 ^ 1074) \<le> \<bar>x\<bar>" by linarith
    then have "ulp_search (Suc n) x = ulp_search n x" by simp
    with Suc.IH [OF kn Suc.prems(2,3)] show ?thesis by simp
  qed
qed

lemma nearest_error:
  fixes y :: rat and f :: int
  assumes "of_int f \<le> y" and "y < of_int f + 1"
  shows "\<bar>of_int (if y - of_int f < 1 / 2 then f
                  else if 1 / 2 < y - of_int f then f + 1
                  else if even f then f else f + 1) - y\<bar> \<le> 1 / 2"
  using assms by (auto simp: abs_if)

lemma round_half_even_error: "\<bar>of_int (round_half_even y) - y\<bar> \<le> 1 / 2"
proof -
  have "of_int \<lfloor>y\<rfloor> \<le> y" and "y < of_int \<lfloor>y\<rfloor> + 1" by linarith+
  then show ?thesis
    unfolding round_half_even_def Let_def by (rule nearest_error)
qed

lemma nearest_le:
  fixes y :: rat and f N :: int
  assumes "of_int f \<le> y" and "y < of_int f + 1" and "y \<le> of_int N"
  shows "(if y - of_int f < 1 / 2 then f
          else if 1 / 2 < y - of_int f then f + 1
          else if even f then f else f + 1) \<le> N"
proof -
  from assms have "f \<le> N" by linarith
  moreover have "f < N" if "1 / 2 \<le> y - of_int f"
  proof -
    from that assms have "(of_int f :: rat) < of_int N" by linarith
    then show ?thesis by simp
  qed
  ultimately show ?thesis by auto
qed

lemma nearest_ge:
  fixes y :: rat and f N :: int
  assumes "of_int f \<le> y" and "y < of_int f + 1" and "of_int N \<le> y"
  shows "N \<le> (if y - of_int f < 1 / 2 then f
              else if 1 / 2 < y - of_int f then f + 1
              else if even f then f else f + 1)"
proof -
  from assms have "(of_int N :: rat) < of_int f + 1" by linarith
  then have "(of_int N :: rat) < of_int (f + 1)" by simp
  then have "N < f + 1" by (simp only: of_int_less_iff)
  then show ?thesis by auto
qed

lemma round_half_even_le: "y \<le> of_int N \<Longrightarrow> round_half_even y \<le> N"
proof -
  assume a: "y \<le> of_int N"
  have "of_int \<lfloor>y\<rfloor> \<le> y" and "y < of_int \<lfloor>y\<rfloor> + 1" by linarith+
  then show ?thesis
    unfolding round_half_even_def Let_def using a by (rule nearest_le)
qed

lemma round_half_even_ge: "of_int N \<le> y \<Longrightarrow> N \<le> round_half_even y"
proof -
  assume a: "of_int N \<le> y"
  have "of_int \<lfloor>y\<rfloor> \<le> y" and "y < of_int \<lfloor>y\<rfloor> + 1" by linarith+
  then show ?thesis
    unfolding round_half_even_def Let_def using a by (rule nearest_ge)
qed


lemma ulp_pos: "0 < ulp x"
  unfolding ulp_def by (rule ulp_search_pos)

lemma ulp_eqI:
  "k \<le> 2045 \<Longrightarrow> 2 ^ 52 * (2 ^ k / 2 ^ 1074) \<le> \<bar>x\<bar> \<Longrightarrow> \<bar>x\<bar> < 2 ^ 53 * (2 ^ k / 2 ^ 1074)
   \<Longrightarrow> ulp x = 2 ^ k / 2 ^ 1074"
  unfolding ulp_def by (rule ulp_search_eq)

lemma round_nearest_error: "\<bar>round_nearest x - x\<bar> \<le> ulp x / 2"
proof -
  let ?u = "ulp x"
  have u: "0 < ?u" by (rule ulp_pos)
  have "round_nearest x - x = (of_int (round_half_even (x / ?u)) - x / ?u) * ?u"
    using u by (simp add: round_nearest_def field_simps)
  then have "\<bar>round_nearest x - x\<bar> = \<bar>of_int (round_half_even (x / ?u)) - x / ?u\<bar> * ?u"
    using u by (simp add: abs_mult)
  also have "\<dots> \<le> (1 / 2) * ?u"
    using round_half_even_error [of "x / ?u"] u by (rule mult_right_mono [OF _ less_imp_le])
  finally show ?thesis by simp
qed

lemma round_nearest_rel_error: "\<bar>round_nearest x - x\<bar> \<le> \<bar>x\<bar> / 2 ^ 53 + 1 / 2 ^ 1075"
proof -
  have e: "\<bar>round_nearest x - x\<bar> \<le> ulp x / 2" by (rule round_nearest_error)
  from ulp_search_small [of 2045 x]
  have "ulp x = 1 / 2 ^ 1074 \<or> 2 ^ 52 * ulp x \<le> \<bar>x\<bar>" by (simp only: ulp_def)
  then show ?thesis
  proof
    assume "ulp x = 1 / 2 ^ 1074"
    with e have "\<bar>round_nearest x - x\<bar> \<le> 1 / 2 ^ 1075" by simp
    moreover have "0 \<le> \<bar>x\<bar> / 2 ^ 53" by simp
    ultimately show ?thesis by linarith
  next
    assume "2 ^ 52 * ulp x \<le> \<bar>x\<bar>"
    then have "ulp x / 2 \<le> \<bar>x\<bar> / 2 ^ 53" by (simp add: field_simps)
    with e show ?thesis by simp
  qed
qed

lemma round_nearest_nonneg: "0 \<le> x \<Longrightarrow> 0 \<le> round_nearest x"
proof -
  assume "0 \<le> x"
  then have "of_int 0 \<le> x / ulp x" using ulp_pos [of x] by simp
  then have "0 \<le> round_half_even (x / ulp x)" by (rule round_half_even_ge)
  then show ?thesis using ulp_pos [of x] by (simp add: round_nearest_def)
qed

lemma round_nearest_bounded:
  assumes "\<bar>x\<bar> \<le> max_double"
  shows "\<bar>round_nearest x\<bar> \<le> max_double"
proof -
  let ?u = "ulp x"
  have u: "0 < ?u" by (rule ulp_pos)
  from ulp_search_form [of 2045 x] obtain k where k: "k \<le> 2045" "?u = 2 ^ k / 2 ^ 1074"
    unfolding ulp_def by blast
  define N :: int where "N = (2 ^ 53 - 1) * 2 ^ (2045 - k)"
  have "(2::rat) ^ (2045 - k) * 2 ^ k = 2 ^ 2045"
    using k(1) by (simp add: power_add [symmetric])
  then have "((2 ^ 53 - 1) * 2 ^ (2045 - k)) * (2 ^ k / 2 ^ 1074) = ((2 ^ 53 - 1) * 2 ^ 2045 / 2 ^ 1074 :: rat)"
    by (simp add: mult.assoc)
  also have "\<dots> = max_double" by (simp add: max_double_def)
  finally have Nu: "of_int N * ?u = max_double" by (simp add: N_def k(2))
  from assms have "x \<le> of_int N * ?u" and "- (of_int N * ?u) \<le> x" unfolding Nu by linarith+
  then have up: "x / ?u \<le> of_int N" and lo: "of_int (- N) \<le> x / ?u"
    using u by (simp_all add: field_simps)
  from up have "round_half_even (x / ?u) \<le> N" by (rule round_half_even_le)
  then have "(of_int (round_half_even (x / ?u)) :: rat) \<le> of_int N" by (simp only: of_int_le_iff)
  then have a: "round_nearest x \<le> max_double"
    unfolding round_nearest_def Nu [symmetric] using u by (simp only: mult_le_cancel_right_pos)
  from lo have "- N \<le> round_half_even (x / ?u)" by (rule round_half_even_ge)
  then have "(of_int (- N) :: rat) \<le> of_int (round_half_even (x / ?u))" by (simp only: of_int_le_iff)
  then have "of_int (- N) * ?u \<le> round_nearest x"
    unfolding round_nearest_def using u by (simp only: mult_le_cancel_right_pos)
  then have b: "- max_double \<le> round_nearest x" using Nu by simp
  from a b show ?thesis by linarith
qed

lemma round_double_Some: "\<bar>x\<bar> \<le> max_double \<Longrightarrow> round_double x = Some (round_nearest x)"
  by (simp add: round_double_def round_nearest_bounded)

lemma round_half_even_eqI:
  assumes "\<bar>y - of_int m\<bar> < 1 / 2"
  shows "round_half_even y = m"
proof -
  have "\<bar>of_int (round_half_even y) - y\<bar> \<le> 1 / 2" by (rule round_half_even_error)
  with assms have "\<bar>(of_int (round_half_even y) :: rat) - of_int m\<bar> < 1" by linarith
  then have "\<bar>(of_int (round_half_even y - m) :: rat)\<bar> < of_int 1" by simp
  then have "\<bar>round_half_even y - m\<bar> < 1"
    by (simp only: of_int_abs [symmetric] of_int_less_iff)
  then show ?thesis by linarith
qed

lemma round_double_eqI:
  assumes "k \<le> 2045" and "2 ^ 52 * (2 ^ k / 2 ^ 1074) \<le> \<bar>x\<bar>"
    and "\<bar>x\<bar> < 2 ^ 53 * (2 ^ k / 2 ^ 1074)"
    and "\<bar>x / (2 ^ k / 2 ^ 1074) - of_int m\<bar> < 1 / 2"
    and "\<bar>of_int m * (2 ^ k / 2 ^ 1074)\<bar> \<le> max_double"
  shows "round_double x = Some (of_int m * (2 ^ k / 2 ^ 1074))"
proof -
  from assms(1-3) have "ulp x = 2 ^ k / 2 ^ 1074" by (rule ulp_eqI)
  moreover from assms(4) have "round_half_even (x / (2 ^ k / 2 ^ 1074)) = m"
    by (rule round_half_even_eqI)
  ultimately have "round_nearest x = of_int m * (2 ^ k / 2 ^ 1074)"
    by (simp only: round_nearest_def)
  with assms(5) show ?thesis by (simp only: round_double_def Let_def if_True)
qed

lemma round_0_40: "round_double 0.40 = Some (3602879701896397 / 2 ^ 53)"
proof -
  have "round_double 0.40 = Some (of_int 7205759403792794 * (2 ^ 1020 / 2 ^ 1074))"
    by (rule round_double_eqI) (simp_all add: max_double_def)
  then show ?thesis by simp
qed

lemma round_0_60: "round_double 0.60 = Some (5404319552844595 / 2 ^ 53)"
proof -
  have "round_double 0.60 = Some (of_int 5404319552844595 * (2 ^ 1021 / 2 ^ 1074))"
    by (rule round_double_eqI) (simp_all add: max_double_def)
  then show ?thesis by simp
qed


lemma round_half_even_tie:
  assumes "y = of_int m + 1 / 2" and "even m"
  shows "round_half_even y = m"
proof -
  have "\<lfloor>y\<rfloor> = m" unfolding assms(1) by (rule floor_unique) simp_all
  then show ?thesis using assms by (simp add: round_half_even_def)
qed

lemma round_double_tieI:
  assumes "k \<le> 2045" and "2 ^ 52 * (2 ^ k / 2 ^ 1074) \<le> \<bar>x\<bar>"
    and "\<bar>x\<bar> < 2 ^ 53 * (2 ^ k / 2 ^ 1074)"
    and "x / (2 ^ k / 2 ^ 1074) = of_int m + 1 / 2" and "even m"
    and "\<bar>of_int m * (2 ^ k / 2 ^ 1074)\<bar> \<le> max_double"
  shows "round_double x = Some (of_int m * (2 ^ k / 2 ^ 1074))"
proof -
  from assms(1-3) have "ulp x = 2 ^ k / 2 ^ 1074" by (rule ulp_eqI)
  moreover from assms(4,5) have "round_half_even (x / (2 ^ k / 2 ^ 1074)) = m"
    by (rule round_half_even_tie)
  ultimately have "round_nearest x = of_int m * (2 ^ k / 2 ^ 1074)"
    by (simp only: round_nearest_def)
  with assms(6) show ?thesis by (simp only: round_double_def Let_def if_True)
qed

lemma calculate_surplus_doubleI:
  assumes "round_double (inc - fixed_total) = Some d" and "0 \<le> d"
    and "round_double (d * (3602879701896397 / 2 ^ 53)) = Some s"
    and "round_double (d * (5404319552844595 / 2 ^ 53)) = Some w"
  shows "calculate_remaining_after_fixed_double inc fixed_total
           = Some [''status'' \<mapsto> PStr ''surplus'',
                   ''needs_total'' \<mapsto> PNum fixed_total,
                   ''discretionary_total'' \<mapsto> PNum d,
                   ''recommended_savings'' \<mapsto> PNum s,
                   ''recommended_wants'' \<mapsto> PNum w]"
proof -
  from assms(2) have "\<not> d < 0" by simp
  then show ?thesis
    unfolding calculate_remaining_after_fixed_double_def
    by (simp only: assms(1,3,4) round_0_40 round_0_60 Option.bind.simps if_False)
qed

lemma surplus_sum_bound:
  fixes d s w :: rat
  assumes "0 \<le> d"
    and "\<bar>s - d * (3602879701896397 / 2 ^ 53)\<bar> \<le> \<bar>d * (3602879701896397 / 2 ^ 53)\<bar> / 2 ^ 53 + 1 / 2 ^ 1075"
    and "\<bar>w - d * (5404319552844595 / 2 ^ 53)\<bar> \<le> \<bar>d * (5404319552844595 / 2 ^ 53)\<bar> / 2 ^ 53 + 1 / 2 ^ 1075"
  shows "\<bar>s + w - d\<bar> \<le> d / 2 ^ 53 + 1 / 2 ^ 1074"
proof -
  have a: "\<bar>d * (3602879701896397 / 2 ^ 53)\<bar> = d * (3602879701896397 / 2 ^ 53)"
    and b: "\<bar>d * (5404319552844595 / 2 ^ 53)\<bar> = d * (5404319552844595 / 2 ^ 53)"
    using assms(1) by (simp_all add: abs_mult)
  have split: "d * (3602879701896397 / 2 ^ 53) + d * (5404319552844595 / 2 ^ 53) = d"
    by (simp add: field_simps)
  have "\<bar>s + w - d\<bar> = \<bar>(s - d * (3602879701896397 / 2 ^ 53)) + (w - d * (5404319552844595 / 2 ^ 53))\<bar>"
    using split by (simp add: algebra_simps)
  also have "\<dots> \<le> \<bar>s - d * (3602879701896397 / 2 ^ 53)\<bar> + \<bar>w - d * (5404319552844595 / 2 ^ 53)\<bar>"
    by (rule abs_triangle_ineq)
  also have "\<dots> \<le> (d * (3602879701896397 / 2 ^ 53) / 2 ^ 53 + 1 / 2 ^ 1075)
                    + (d * (5404319552844595 / 2 ^ 53) / 2 ^ 53 + 1 / 2 ^ 1075)"
    using assms(2,3) unfolding a b by (rule add_mono)
  also have "\<dots> = (d * (3602879701896397 / 2 ^ 53) + d * (5404319552844595 / 2 ^ 53)) / 2 ^ 53
                    + (1 / 2 ^ 1075 + 1 / 2 ^ 1075)"
    by (simp only: add_divide_distrib ac_simps)
  also have "\<dots> = d / 2 ^ 53 + 1 / 2 ^ 1074"
    by (simp only: split) simp
  finally show ?thesis .
qed

section \<open>The purchase risk evaluator\<close>

text \<open>
  C1. For every discretionary balance and every item cost that is not negative,
  \<open>assess_transaction\<close> returns the status DANGER exactly when the cost exceeds the
  balance. When it does, the returned remaining balance is the balance minus the cost,
  which is negative, and the key \<open>cost_percentage_of_free_cash\<close> is absent from the
  result.
\<close>

theorem assess_danger_iff:
  assumes "0 \<le> item_cost"
  shows "(field_of ''status'' (assess_transaction bal sav goal item_cost) = Some (PStr ''DANGER''))
           = (item_cost > bal)
       \<and> (item_cost > bal \<longrightarrow>
            field_of ''remaining_balance'' (assess_transaction bal sav goal item_cost)
              = Some (PNum (bal - item_cost))
          \<and> bal - item_cost < 0
          \<and> field_of ''cost_percentage_of_free_cash'' (assess_transaction bal sav goal item_cost)
              = None)"
  using assms by (auto simp: assess_transaction_def field_of_def Let_def)

theorem assess_danger_iff_witness:
  "(0::rat) \<le> 6000 \<and> (6000::rat) > 5000
   \<and> field_of ''status'' (assess_transaction 5000 0 0 6000) = Some (PStr ''DANGER'')
   \<and> field_of ''remaining_balance'' (assess_transaction 5000 0 0 6000) = Some (PNum (- 1000))
   \<and> field_of ''cost_percentage_of_free_cash'' (assess_transaction 5000 0 0 6000) = None"
  using assess_danger_iff [of 6000 5000 0 0] by simp

text \<open>
  C2. For every positive balance and every cost between zero and the balance,
  \<open>assess_transaction\<close> returns CAUTION when the cost exceeds half of the balance and
  SAFE otherwise, in both cases with the remaining balance \<open>bal - item_cost\<close> and the
  percentage \<open>100 * item_cost / bal\<close>. In particular a balance of 30000 and a cost of
  20000 give CAUTION, 10000 remaining and a percentage of 200/3, which is 66.67 to two
  decimal places.
\<close>

theorem assess_caution_safe:
  assumes "0 < bal" and "0 \<le> item_cost" and "item_cost \<le> bal"
  shows "field_of ''status'' (assess_transaction bal sav goal item_cost)
           = Some (PStr (if item_cost > 0.5 * bal then ''CAUTION'' else ''SAFE''))
       \<and> field_of ''remaining_balance'' (assess_transaction bal sav goal item_cost)
           = Some (PNum (bal - item_cost))
       \<and> field_of ''cost_percentage_of_free_cash'' (assess_transaction bal sav goal item_cost)
           = Some (PNum (100 * item_cost / bal))
       \<and> field_of ''status'' (assess_transaction 30000 sav goal 20000) = Some (PStr ''CAUTION'')
       \<and> field_of ''remaining_balance'' (assess_transaction 30000 sav goal 20000)
           = Some (PNum 10000)
       \<and> field_of ''cost_percentage_of_free_cash'' (assess_transaction 30000 sav goal 20000)
           = Some (PNum (200 / 3))
       \<and> \<bar>200 / 3 - (66.67::rat)\<bar> \<le> 0.005"
  using assms by (simp add: assess_transaction_def field_of_def Let_def)

theorem assess_caution_safe_witness:
  "(0::rat) < 30000 \<and> (0::rat) \<le> 10000 \<and> (10000::rat) \<le> 30000
   \<and> field_of ''status'' (assess_transaction 30000 0 0 10000) = Some (PStr ''SAFE'')
   \<and> field_of ''remaining_balance'' (assess_transaction 30000 0 0 10000) = Some (PNum 20000)
   \<and> field_of ''cost_percentage_of_free_cash'' (assess_transaction 30000 0 0 10000)
       = Some (PNum (100 / 3))"
  using assess_caution_safe [of 30000 10000 0 0] by simp

text \<open>
  C3. With a balance of zero and a cost of zero the DANGER branch is not taken and the
  percentage is computed: the division by the balance is not guarded, and the call ends in
  ZeroDivisionError. More generally the error arises exactly when the balance is zero and
  the cost is not positive.
\<close>

theorem assess_zero_division:
  "assess_transaction 0 sav goal 0 = Inl ZeroDivisionError
   \<and> field_of ''status'' (assess_transaction 0 sav goal 0) \<noteq> Some (PStr ''DANGER'')
   \<and> (assess_transaction bal sav goal item_cost = Inl ZeroDivisionError)
       = (bal = 0 \<and> item_cost \<le> 0)"
  by (auto simp: assess_transaction_def field_of_def Let_def)

text \<open>
  C8. \<open>assess_transaction\<close> is a function of the balance and the cost alone: two
  calls that agree on them and differ in \<open>current_savings\<close> and \<open>savings_goal\<close>
  return the same result, every key included.
\<close>

theorem assess_ignores_savings:
  "assess_transaction bal sav1 goal1 item_cost = assess_transaction bal sav2 goal2 item_cost"
  by (simp add: assess_transaction_def)

section \<open>The budget allocator\<close>

text \<open>
  C4. For every income and fixed total that are not negative, with the fixed total at
  most the income and the income a finite double, \<open>calculate_remaining_after_fixed\<close>
  returns a surplus record. Its discretionary total \<open>d\<close> is the rounded difference, its
  recommended savings are the rounded product of \<open>d\<close> and the double of \<open>0.40\<close>, its
  recommended wants the rounded product of \<open>d\<close> and the double of \<open>0.60\<close>. The savings
  and the wants add up to \<open>d\<close> up to \<open>d / 2 ^ 53 + 1 / 2 ^ 1074\<close>, which is within
  \<open>1e-9\<close> when \<open>d\<close> is at most 9000000.
\<close>

theorem allocate_surplus_double:
  assumes "0 \<le> inc" and "0 \<le> fixed_total" and "fixed_total \<le> inc" and "inc \<le> max_double"
  shows "\<exists>d s w.
           calculate_remaining_after_fixed_double inc fixed_total
             = Some [''status'' \<mapsto> PStr ''surplus'',
                     ''needs_total'' \<mapsto> PNum fixed_total,
                     ''discretionary_total'' \<mapsto> PNum d,
                     ''recommended_savings'' \<mapsto> PNum s,
                     ''recommended_wants'' \<mapsto> PNum w]
         \<and> round_double (inc - fixed_total) = Some d
         \<and> round_double 0.40 = Some (3602879701896397 / 2 ^ 53)
         \<and> round_double (d * (3602879701896397 / 2 ^ 53)) = Some s
         \<and> round_double 0.60 = Some (5404319552844595 / 2 ^ 53)
         \<and> round_double (d * (5404319552844595 / 2 ^ 53)) = Some w
         \<and> 0 \<le> d
         \<and> \<bar>d - (inc - fixed_total)\<bar> \<le> (inc - fixed_total) / 2 ^ 53 + 1 / 2 ^ 1075
         \<and> \<bar>s + w - d\<bar> \<le> d / 2 ^ 53 + 1 / 2 ^ 1074
         \<and> (d \<le> 9000000 \<longrightarrow> \<bar>s + w - d\<bar> \<le> 1 / 10 ^ 9)"
proof -
  let ?x = "inc - fixed_total"
  let ?d = "round_nearest ?x"
  let ?c40 = "3602879701896397 / 2 ^ 53 :: rat"
  let ?c60 = "5404319552844595 / 2 ^ 53 :: rat"
  let ?s = "round_nearest (?d * ?c40)"
  let ?w = "round_nearest (?d * ?c60)"
  from assms have x: "0 \<le> ?x" "\<bar>?x\<bar> \<le> max_double" by simp_all
  have rd: "round_double ?x = Some ?d" using x(2) by (rule round_double_Some)
  have d0: "0 \<le> ?d" using x(1) by (rule round_nearest_nonneg)
  have dmax: "?d \<le> max_double" using round_nearest_bounded [OF x(2)] by linarith
  have "?d * ?c40 \<le> ?d * 1" by (rule mult_left_mono [OF _ d0]) simp
  with d0 dmax have s_in: "\<bar>?d * ?c40\<bar> \<le> max_double" by (simp add: abs_mult)
  have "?d * ?c60 \<le> ?d * 1" by (rule mult_left_mono [OF _ d0]) simp
  with d0 dmax have w_in: "\<bar>?d * ?c60\<bar> \<le> max_double" by (simp add: abs_mult)
  have rs: "round_double (?d * ?c40) = Some ?s" using s_in by (rule round_double_Some)
  have rw: "round_double (?d * ?c60) = Some ?w" using w_in by (rule round_double_Some)
  have plan: "calculate_remaining_after_fixed_double inc fixed_total
                = Some [''status'' \<mapsto> PStr ''surplus'',
                        ''needs_total'' \<mapsto> PNum fixed_total,
                        ''discretionary_total'' \<mapsto> PNum ?d,
                        ''recommended_savings'' \<mapsto> PNum ?s,
                        ''recommended_wants'' \<mapsto> PNum ?w]"
    using rd d0 rs rw by (rule calculate_surplus_doubleI)
  have ed: "\<bar>?d - ?x\<bar> \<le> ?x / 2 ^ 53 + 1 / 2 ^ 1075"
    using round_nearest_rel_error [of ?x] x(1) by simp
  have sum: "\<bar>?s + ?w - ?d\<bar> \<le> ?d / 2 ^ 53 + 1 / 2 ^ 1074"
    using d0 round_nearest_rel_error [of "?d * ?c40"] round_nearest_rel_error [of "?d * ?c60"]
    by (rule surplus_sum_bound)
  have small: "\<bar>?s + ?w - ?d\<bar> \<le> 1 / 10 ^ 9" if "?d \<le> 9000000"
  proof -
    from that have "?d / 2 ^ 53 \<le> 9000000 / 2 ^ 53" by (simp add: divide_right_mono)
    moreover have "(9000000 / 2 ^ 53 + 1 / 2 ^ 1074 :: rat) \<le> 1 / 10 ^ 9" by simp
    ultimately show ?thesis using sum by linarith
  qed
  from plan rd round_0_40 rs round_0_60 rw d0 ed sum small show ?thesis by blast
qed

theorem allocate_surplus_double_witness:
  "(0::rat) \<le> 50000 \<and> (0::rat) \<le> 20000 \<and> (20000::rat) \<le> 50000 \<and> 50000 \<le> max_double
   \<and> calculate_remaining_after_fixed_double 50000 20000
       = Some [''status'' \<mapsto> PStr ''surplus'',
               ''needs_total'' \<mapsto> PNum 20000,
               ''discretionary_total'' \<mapsto> PNum 30000,
               ''recommended_savings'' \<mapsto> PNum 12000,
               ''recommended_wants'' \<mapsto> PNum 18000]
   \<and> \<bar>12000 + 18000 - (30000::rat)\<bar> \<le> 1 / 10 ^ 9"
proof -
  have "round_double (50000 - 20000) = Some (of_int 8246337208320000 * (2 ^ 1036 / 2 ^ 1074))"
    by (rule round_double_eqI) (simp_all add: max_double_def)
  then have d: "round_double (50000 - 20000) = Some 30000" by simp
  have "round_double (30000 * (3602879701896397 / 2 ^ 53))
          = Some (of_int 6597069766656000 * (2 ^ 1035 / 2 ^ 1074))"
    by (rule round_double_eqI) (simp_all add: max_double_def)
  then have s: "round_double (30000 * (3602879701896397 / 2 ^ 53)) = Some 12000" by simp
  have "round_double (30000 * (5404319552844595 / 2 ^ 53))
          = Some (of_int 4947802324992000 * (2 ^ 1036 / 2 ^ 1074))"
    by (rule round_double_eqI) (simp_all add: max_double_def)
  then have w: "round_double (30000 * (5404319552844595 / 2 ^ 53)) = Some 18000" by simp
  have plan: "calculate_remaining_after_fixed_double 50000 20000
       = Some [''status'' \<mapsto> PStr ''surplus'',
               ''needs_total'' \<mapsto> PNum 20000,
               ''discretionary_total'' \<mapsto> PNum 30000,
               ''recommended_savings'' \<mapsto> PNum 12000,
               ''recommended_wants'' \<mapsto> PNum 18000]"
    using d _ s w by (rule calculate_surplus_doubleI) simp
  have m: "(50000::rat) \<le> max_double" by (simp add: max_double_def)
  from allocate_surplus_double [of 50000 20000] plan m show ?thesis by simp
qed

text \<open>
  The tolerance \<open>1e-9\<close> does not hold for every input. With the doubles of 93218747.19
  and 32053248.96 as income and fixed total, the difference is exact, and the two
  shares returned add up to \<open>1 / 2 ^ 28\<close> less than the discretionary total returned,
  which is more than \<open>1e-9\<close>; added as doubles they give \<open>1 / 2 ^ 27\<close> less.
\<close>

theorem allocate_tolerance_counterexample:
  "(0::rat) \<le> 1563951056856023 / 2 ^ 24
   \<and> (0::rat) \<le> 4302114250429563 / 2 ^ 27
   \<and> (4302114250429563 / 2 ^ 27 :: rat) \<le> 1563951056856023 / 2 ^ 24
   \<and> round_double (1563951056856023 / 2 ^ 24) = Some (1563951056856023 / 2 ^ 24)
   \<and> round_double (4302114250429563 / 2 ^ 27) = Some (4302114250429563 / 2 ^ 27)
   \<and> calculate_remaining_after_fixed_double (1563951056856023 / 2 ^ 24) (4302114250429563 / 2 ^ 27)
       = Some [''status'' \<mapsto> PStr ''surplus'',
               ''needs_total'' \<mapsto> PNum (4302114250429563 / 2 ^ 27),
               ''discretionary_total'' \<mapsto> PNum (8209494204418621 / 2 ^ 27),
               ''recommended_savings'' \<mapsto> PNum (6567595363534897 / 2 ^ 28),
               ''recommended_wants'' \<mapsto> PNum (1231424130662793 / 2 ^ 25)]
   \<and> (8209494204418621 / 2 ^ 27 :: rat) = 1563951056856023 / 2 ^ 24 - 4302114250429563 / 2 ^ 27
   \<and> \<bar>6567595363534897 / 2 ^ 28 + 1231424130662793 / 2 ^ 25 - 8209494204418621 / 2 ^ 27\<bar>
       > (1 / 10 ^ 9 :: rat)
   \<and> round_double (6567595363534897 / 2 ^ 28 + 1231424130662793 / 2 ^ 25)
       = Some (2052373551104655 / 2 ^ 25)
   \<and> \<bar>2052373551104655 / 2 ^ 25 - 8209494204418621 / 2 ^ 27\<bar> > (1 / 10 ^ 9 :: rat)"
proof -
  have "round_double (1563951056856023 / 2 ^ 24)
          = Some (of_int 6255804227424092 * (2 ^ 1048 / 2 ^ 1074))"
    by (rule round_double_eqI) (simp_all add: max_double_def)
  then have i: "round_double (1563951056856023 / 2 ^ 24) = Some (1563951056856023 / 2 ^ 24)"
    by simp
  have "round_double (4302114250429563 / 2 ^ 27)
          = Some (of_int 8604228500859126 * (2 ^ 1046 / 2 ^ 1074))"
    by (rule round_double_eqI) (simp_all add: max_double_def)
  then have f: "round_double (4302114250429563 / 2 ^ 27) = Some (4302114250429563 / 2 ^ 27)"
    by simp
  have "round_double (1563951056856023 / 2 ^ 24 - 4302114250429563 / 2 ^ 27)
          = Some (of_int 8209494204418621 * (2 ^ 1047 / 2 ^ 1074))"
    by (rule round_double_eqI) (simp_all add: max_double_def)
  then have d: "round_double (1563951056856023 / 2 ^ 24 - 4302114250429563 / 2 ^ 27)
                  = Some (8209494204418621 / 2 ^ 27)"
    by simp
  have "round_double (8209494204418621 / 2 ^ 27 * (3602879701896397 / 2 ^ 53))
          = Some (of_int 6567595363534897 * (2 ^ 1046 / 2 ^ 1074))"
    by (rule round_double_eqI) (simp_all add: max_double_def)
  then have s: "round_double (8209494204418621 / 2 ^ 27 * (3602879701896397 / 2 ^ 53))
                  = Some (6567595363534897 / 2 ^ 28)"
    by simp
  have "round_double (8209494204418621 / 2 ^ 27 * (5404319552844595 / 2 ^ 53))
          = Some (of_int 4925696522651172 * (2 ^ 1047 / 2 ^ 1074))"
    by (rule round_double_eqI) (simp_all add: max_double_def)
  then have w: "round_double (8209494204418621 / 2 ^ 27 * (5404319552844595 / 2 ^ 53))
                  = Some (1231424130662793 / 2 ^ 25)"
    by simp
  have "round_double (6567595363534897 / 2 ^ 28 + 1231424130662793 / 2 ^ 25)
          = Some (of_int 8209494204418620 * (2 ^ 1047 / 2 ^ 1074))"
    by (rule round_double_tieI) (simp_all add: max_double_def)
  then have t: "round_double (6567595363534897 / 2 ^ 28 + 1231424130662793 / 2 ^ 25)
                  = Some (2052373551104655 / 2 ^ 25)"
    by simp
  have plan: "calculate_remaining_after_fixed_double
                (1563951056856023 / 2 ^ 24) (4302114250429563 / 2 ^ 27)
       = Some [''status'' \<mapsto> PStr ''surplus'',
               ''needs_total'' \<mapsto> PNum (4302114250429563 / 2 ^ 27),
               ''discretionary_total'' \<mapsto> PNum (8209494204418621 / 2 ^ 27),
               ''recommended_savings'' \<mapsto> PNum (6567595363534897 / 2 ^ 28),
               ''recommended_wants'' \<mapsto> PNum (1231424130662793 / 2 ^ 25)]"
    using d _ s w by (rule calculate_surplus_doubleI) simp
  have arith: "(0::rat) \<le> 1563951056856023 / 2 ^ 24"
    "(0::rat) \<le> 4302114250429563 / 2 ^ 27"
    "(4302114250429563 / 2 ^ 27 :: rat) \<le> 1563951056856023 / 2 ^ 24"
    "(8209494204418621 / 2 ^ 27 :: rat) = 1563951056856023 / 2 ^ 24 - 4302114250429563 / 2 ^ 27"
    "\<bar>6567595363534897 / 2 ^ 28 + 1231424130662793 / 2 ^ 25 - 8209494204418621 / 2 ^ 27\<bar>
       > (1 / 10 ^ 9 :: rat)"
    "\<bar>2052373551104655 / 2 ^ 25 - 8209494204418621 / 2 ^ 27\<bar> > (1 / 10 ^ 9 :: rat)"
    by simp_all
  from i f plan t arith show ?thesis by blast
qed

text \<open>
  C5. When the fixed total exceeds the income, \<open>calculate_remaining_after_fixed\<close>
  returns a deficit record whose \<open>needs_gap\<close> is the fixed total minus the income and
  whose reported discretionary value is 0. An income of 30000 with a fixed total of
  40000 gives a deficit with a gap of 10000.
\<close>

theorem allocate_deficit:
  assumes "fixed_total > inc"
  shows "calculate_remaining_after_fixed inc fixed_total ''status'' = Some (PStr ''deficit'')
       \<and> calculate_remaining_after_fixed inc fixed_total ''needs_gap''
           = Some (PNum (fixed_total - inc))
       \<and> calculate_remaining_after_fixed inc fixed_total ''discretionary'' = Some (PNum 0)
       \<and> calculate_remaining_after_fixed 30000 40000 ''status'' = Some (PStr ''deficit'')
       \<and> calculate_remaining_after_fixed 30000 40000 ''needs_gap'' = Some (PNum 10000)"
  using assms by (simp add: calculate_remaining_after_fixed_def Let_def)

theorem allocate_deficit_witness:
  "(2500::rat) > 1000
   \<and> calculate_remaining_after_fixed 1000 2500 ''status'' = Some (PStr ''deficit'')
   \<and> calculate_remaining_after_fixed 1000 2500 ''needs_gap'' = Some (PNum 1500)
   \<and> calculate_remaining_after_fixed 1000 2500 ''discretionary'' = Some (PNum 0)"
  using allocate_deficit [of 1000 2500] by simp

section \<open>The state aggregator\<close>

text \<open>
  C6. For every document, the snapshot of \<open>get_todays_state\<close> has as variable expenses
  the sum of the amounts of exactly the transactions whose type is \<open>expense\<close>: every
  other transaction counts as 0, and logging a transaction of type \<open>income\<close> leaves the
  snapshot as it was. Its total of fixed expenses is the sum of the amounts of all fixed
  expenses, and its free cash flow is the income minus the fixed total minus the
  variable expenses.
\<close>

theorem snapshot_sums:
  "variable_expenses (get_todays_state data)
     = (\<Sum>t\<leftarrow>transactions data. if tx_type t = ''expense'' then tx_amount t else 0)
   \<and> total_fixed_expenses (get_todays_state data) = (\<Sum>e\<leftarrow>fixed_expenses data. amount e)
   \<and> income (get_todays_state data) = monthly_income (profile data)
   \<and> free_cash_flow (get_todays_state data)
       = income (get_todays_state data) - total_fixed_expenses (get_todays_state data)
         - variable_expenses (get_todays_state data)
   \<and> get_todays_state (log_transaction (t\<lparr>tx_type := ''income''\<rparr>) data) = get_todays_state data
   \<and> variable_expenses (get_todays_state (log_transaction (t\<lparr>tx_type := ''expense''\<rparr>) data))
       = variable_expenses (get_todays_state data) + tx_amount t"
  by (simp add: get_todays_state_def get_user_profile_def get_total_fixed_expenses_def
        get_fixed_expenses_def get_transactions_def log_transaction_def Let_def
        sum_list_filter_if)

section \<open>The ledger store\<close>

text \<open>
  C7. From any document whose fixed-expense names are unique, \<open>add_fixed_expense\<close>
  keeps the names unique and leaves exactly one entry with the given name, holding the
  given amount; the entries with other names stay as they were. Adding \<open>Rent\<close> with 500
  and then \<open>Rent\<close> with 600 leaves exactly one entry named \<open>Rent\<close>, with amount 600.
\<close>

theorem add_fixed_expense_upsert:
  assumes "distinct (map name (fixed_expenses data))"
  shows "distinct (map name (fixed_expenses (add_fixed_expense n a data)))
       \<and> filter (\<lambda>e. name e = n) (fixed_expenses (add_fixed_expense n a data))
           = [\<lparr>name = n, amount = a\<rparr>]
       \<and> filter (\<lambda>e. name e \<noteq> n) (fixed_expenses (add_fixed_expense n a data))
           = filter (\<lambda>e. name e \<noteq> n) (fixed_expenses data)
       \<and> distinct (map name (fixed_expenses
             (add_fixed_expense ''Rent'' 600 (add_fixed_expense ''Rent'' 500 data))))
       \<and> filter (\<lambda>e. name e = ''Rent'')
             (fixed_expenses (add_fixed_expense ''Rent'' 600 (add_fixed_expense ''Rent'' 500 data)))
           = [\<lparr>name = ''Rent'', amount = 600\<rparr>]"
proof -
  have d1: "distinct (map name (fixed_expenses (add_fixed_expense m b d)))"
    if "distinct (map name (fixed_expenses d))" for m b d
    unfolding fixed_expenses_add using that by (rule distinct_names_add)
  have d2: "distinct (map name (fixed_expenses
              (add_fixed_expense m c (add_fixed_expense m b data))))" for m b c
    by (rule d1 [OF d1 [OF assms]])
  have f1: "filter (\<lambda>e. name e = m) (fixed_expenses (add_fixed_expense m b d))
              = [\<lparr>name = m, amount = b\<rparr>]" for m b d
    unfolding fixed_expenses_add by (rule filter_name_add)
  have f2: "filter (\<lambda>e. name e \<noteq> n) (fixed_expenses (add_fixed_expense n a data))
              = filter (\<lambda>e. name e \<noteq> n) (fixed_expenses data)"
    by (simp add: fixed_expenses_add)
  from d1 [OF assms, of n a] d2 [of "''Rent''" 600 500] f1 [of n a data] f2
       f1 [of "''Rent''" 600 "add_fixed_expense ''Rent'' 500 data"]
  show ?thesis by blast
qed

theorem add_fixed_expense_upsert_witness:
  "distinct (map name (fixed_expenses
      (initial_data\<lparr>fixed_expenses :=
         [\<lparr>name = ''Rent'', amount = 500\<rparr>, \<lparr>name = ''Food'', amount = 200\<rparr>]\<rparr>)))
   \<and> fixed_expenses (add_fixed_expense ''Rent'' 600
        (initial_data\<lparr>fixed_expenses :=
           [\<lparr>name = ''Rent'', amount = 500\<rparr>, \<lparr>name = ''Food'', amount = 200\<rparr>]\<rparr>))
       = [\<lparr>name = ''Food'', amount = 200\<rparr>, \<lparr>name = ''Rent'', amount = 600\<rparr>]
   \<and> filter (\<lambda>e. name e = ''Rent'') (fixed_expenses (add_fixed_expense ''Rent'' 600
        (initial_data\<lparr>fixed_expenses :=
           [\<lparr>name = ''Rent'', amount = 500\<rparr>, \<lparr>name = ''Food'', amount = 200\<rparr>]\<rparr>)))
       = [\<lparr>name = ''Rent'', amount = 600\<rparr>]"
  using add_fixed_expense_upsert
    [of "initial_data\<lparr>fixed_expenses :=
           [\<lparr>name = ''Rent'', amount = 500\<rparr>, \<lparr>name = ''Food'', amount = 200\<rparr>]\<rparr>"
        "''Rent''" 600]
  by (simp add: add_fixed_expense_def initial_data_def)

text \<open>
  C9. \<open>update_user_profile\<close> sets the monthly income and the savings goal of the
  profile and changes nothing else: the currency of the profile, the fixed expenses, the
  transactions and the budget plan are the ones of the document before the call.
\<close>

theorem update_user_profile_frame:
  "currency (profile (update_user_profile inc goal data)) = currency (profile data)
   \<and> fixed_expenses (update_user_profile inc goal data) = fixed_expenses data
   \<and> transactions (update_user_profile inc goal data) = transactions data
   \<and> budget_plan (update_user_profile inc goal data) = budget_plan data
   \<and> monthly_income (profile (update_user_profile inc goal data)) = inc
   \<and> savings_goal (profile (update_user_profile inc goal data)) = goal"
  by (simp add: update_user_profile_def)

section \<open>The state agent\<close>

text \<open>
  C10. \<open>FinancialStateAgent.log_transaction\<close> appends one transaction, whose type is
  \<open>expense\<close>, to any document. No operation of the agent and no sequence of them
  adds or changes a transaction of another type: the transactions whose type is not
  \<open>expense\<close> are the ones the document held before. So when every transaction of a
  document has type \<open>expense\<close>, this still holds after any sequence of operations of
  the agent.
\<close>

theorem agent_keeps_expense_only:
  "transactions (agent_log_transaction now item a cat data)
     = transactions data
       @ [\<lparr>date = now, description = item, tx_amount = a, category = cat,
           tx_type = ''expense''\<rparr>]
   \<and> tx_type (last (transactions (agent_log_transaction now item a cat data))) = ''expense''
   \<and> filter (\<lambda>t. tx_type t \<noteq> ''expense'') (transactions (agent_step op data))
       = filter (\<lambda>t. tx_type t \<noteq> ''expense'') (transactions data)
   \<and> filter (\<lambda>t. tx_type t \<noteq> ''expense'') (transactions (agent_run ops data))
       = filter (\<lambda>t. tx_type t \<noteq> ''expense'') (transactions data)
   \<and> (list_all (\<lambda>t. tx_type t = ''expense'') (transactions data) \<longrightarrow>
        list_all (\<lambda>t. tx_type t = ''expense'') (transactions (agent_step op data))
      \<and> list_all (\<lambda>t. tx_type t = ''expense'') (transactions (agent_run ops data)))"
proof -
  have app: "transactions (agent_log_transaction now item a cat data)
               = transactions data
                 @ [\<lparr>date = now, description = item, tx_amount = a, category = cat,
                     tx_type = ''expense''\<rparr>]"
    by (simp add: agent_log_transaction_def log_transaction_def)
  then have lst: "tx_type (last (transactions (agent_log_transaction now item a cat data)))
                    = ''expense''"
    by simp
  have inv: "list_all (\<lambda>t. tx_type t = ''expense'') (transactions (agent_step op data))
           \<and> list_all (\<lambda>t. tx_type t = ''expense'') (transactions (agent_run ops data))"
    if "list_all (\<lambda>t. tx_type t = ''expense'') (transactions data)"
    using agent_step_expense [OF that, of op] agent_run_expense [OF that, of ops] by simp
  from app lst agent_step_other [of op data] agent_run_other [of ops data] inv
  show ?thesis by blast
qed

text \<open>
  The theorem at a document that holds an expense and at one that holds an income entry
  as well: the income entry stays, and what the agent logs is an expense.
\<close>

theorem agent_keeps_expense_only_witness:
  "list_all (\<lambda>t. tx_type t = ''expense'')
     (transactions (initial_data\<lparr>transactions :=
        [\<lparr>date = ''2024-01-01T09:00:00'', description = ''Tea'', tx_amount = 20,
          category = ''Wants'', tx_type = ''expense''\<rparr>]\<rparr>))
   \<and> list_all (\<lambda>t. tx_type t = ''expense'')
        (transactions
          (agent_run [UpdateProfile 50000 10000, AddFixedExpense ''Rent'' 20000,
                      LogTransaction ''2024-01-01T10:00:00'' ''Shoes'' 3000 ''Wants'',
                      GetTodaysState]
             (initial_data\<lparr>transactions :=
                [\<lparr>date = ''2024-01-01T09:00:00'', description = ''Tea'', tx_amount = 20,
                  category = ''Wants'', tx_type = ''expense''\<rparr>]\<rparr>)))
   \<and> transactions
        (agent_run [UpdateProfile 50000 10000, AddFixedExpense ''Rent'' 20000,
                    LogTransaction ''2024-01-01T10:00:00'' ''Shoes'' 3000 ''Wants'',
                    GetTodaysState]
           (initial_data\<lparr>transactions :=
              [\<lparr>date = ''2024-01-01T09:00:00'', description = ''Tea'', tx_amount = 20,
                category = ''Wants'', tx_type = ''expense''\<rparr>]\<rparr>))
       = [\<lparr>date = ''2024-01-01T09:00:00'', description = ''Tea'', tx_amount = 20,
           category = ''Wants'', tx_type = ''expense''\<rparr>,
          \<lparr>date = ''2024-01-01T10:00:00'', description = ''Shoes'', tx_amount = 3000,
           category = ''Wants'', tx_type = ''expense''\<rparr>]
   \<and> transactions
        (agent_log_transaction ''2024-01-01T10:00:00'' ''Shoes'' 3000 ''Wants''
           (initial_data\<lparr>transactions :=
              [\<lparr>date = ''2024-01-01T08:00:00'', description = ''Salary'', tx_amount = 50000,
                category = ''Needs'', tx_type = ''income''\<rparr>]\<rparr>))
       = [\<lparr>date = ''2024-01-01T08:00:00'', description = ''Salary'', tx_amount = 50000,
           category = ''Needs'', tx_type = ''income''\<rparr>,
          \<lparr>date = ''2024-01-01T10:00:00'', description = ''Shoes'', tx_amount = 3000,
           category = ''Wants'', tx_type = ''expense''\<rparr>]"
  using agent_keeps_expense_only
    [of "''2024-01-01T10:00:00''" "''Shoes''" 3000 "''Wants''"
        "initial_data\<lparr>transactions :=
           [\<lparr>date = ''2024-01-01T09:00:00'', description = ''Tea'', tx_amount = 20,
             category = ''Wants'', tx_type = ''expense''\<rparr>]\<rparr>"
        GetProfile
        "[UpdateProfile 50000 10000, AddFixedExpense ''Rent'' 20000,
          LogTransaction ''2024-01-01T10:00:00'' ''Shoes'' 3000 ''Wants'', GetTodaysState]"]
    agent_keeps_expense_only
    [of "''2024-01-01T10:00:00''" "''Shoes''" 3000 "''Wants''"
        "initial_data\<lparr>transactions :=
           [\<lparr>date = ''2024-01-01T08:00:00'', description = ''Salary'', tx_amount = 50000,
             category = ''Needs'', tx_type = ''income''\<rparr>]\<rparr>"
        GetProfile "[]"]
  by (simp add: initial_data_def update_user_profile_def add_fixed_expense_def
        agent_log_transaction_def log_transaction_def)

end
